theory Spec2Isabelle
  imports Complex_Main
begin

section \<open>Portfolio stress test: the two logic engines of app.py\<close>

text \<open>
  The script computes two projections from widget values: the longevity simulation
  (Sunita, lines 56-98) and the solvency evaluation (Shekhar, lines 129-160).
  Python's numbers are modelled by their exact values: a float or an int that takes part
  in float arithmetic is a \<open>real\<close>, the slider's integer percentages and the loop's
  \<open>age\<close> are \<open>int\<close>, the loop counter \<open>year\<close> of \<open>range(1, 31)\<close> is a \<open>nat\<close>.
  Rounding of IEEE doubles is not modelled, and neither is the OverflowError that Python
  raises where a power or the conversion of an int leaves the range of a double. No value
  of the widgets comes near that range; what is stated about inputs outside the widgets'
  ranges is stated within bounds that exclude it.
\<close>

subsection \<open>Python values and errors\<close>

text \<open>
  \<open>depletion_age\<close> holds the string \<open>"95+"\<close> until the loop assigns the integer \<open>age\<close>
  to it, so it is a value of a str/int union. Comparing a string with a number by \<open><\<close>
  raises TypeError in Python; \<open>==\<close> between a string and a number is False.
\<close>

datatype py_error = TypeError

datatype pyval = PyStr string | PyInt int

fun py_lt :: "pyval \<Rightarrow> int \<Rightarrow> py_error + bool" where
  "py_lt (PyInt a) n = Inr (a < n)"
| "py_lt (PyStr s) n = Inl TypeError"

subsection \<open>Sunita: the longevity simulation\<close>

text \<open>
  The two labels of the radio widget. The rupee sign U+20B9 is written as its three
  UTF-8 bytes.
\<close>

definition rupee :: string where
  "rupee = [CHR 0xE2, CHR 0x82, CHR 0xB9]"

definition paying_rent_label :: string where
  "paying_rent_label = ''Paying Rent ('' @ rupee @ ''10k/mo)''"

definition family_home_label :: string where
  "family_home_label = ''Move to Family Home ('' @ rupee @ ''0)''"

definition corpus :: real where
  "corpus = 2500000"

definition pension :: real where
  "pension = 300000"

definition base_living_expense :: real where
  "base_living_expense = 480000"

definition rent_expense :: "string \<Rightarrow> real" where
  "rent_expense rent_strategy = (if rent_strategy = paying_rent_label then 120000 else 0)"

definition total_expense_y1 :: "string \<Rightarrow> real" where
  "total_expense_y1 rent_strategy = base_living_expense + rent_expense rent_strategy"

text \<open>One row of \<open>simulation_data\<close>: the dict \<open>{"Age": age, "Corpus": current_corpus}\<close>.\<close>

record point =
  Age :: int
  Corpus :: real

text \<open>The variables the loop reads and writes.\<close>

record sim_state =
  current_corpus :: real
  depletion_age :: pyval
  status_color :: string
  simulation_data :: "point list"

definition init_state :: sim_state where
  "init_state = \<lparr>current_corpus = corpus, depletion_age = PyStr ''95+'',
     status_color = ''green'', simulation_data = []\<rparr>"

text \<open>Lines 71-72: the inflated expense of a year, with the shock added in year 5.\<close>

definition annual_expense :: "real \<Rightarrow> real \<Rightarrow> int \<Rightarrow> nat \<Rightarrow> real" where
  "annual_expense inflation total_y1 medical_shock year =
     (let e = total_y1 * (1 + inflation / 100) ^ (year - 1)
      in if year = 5 then e + real_of_int medical_shock else e)"

text \<open>Lines 75-80: the corpus after the year's drawdown, before the clamp.\<close>

definition after_drawdown :: "real \<Rightarrow> real \<Rightarrow> real" where
  "after_drawdown expense c =
     (let portfolio_income = max 0 (c * 0.078);
          total_inflow = pension + portfolio_income;
          drawdown = max 0 (expense - total_inflow)
      in c - drawdown)"

text \<open>Lines 69-88: one iteration of the loop.\<close>

definition loop_body :: "real \<Rightarrow> real \<Rightarrow> int \<Rightarrow> nat \<Rightarrow> sim_state \<Rightarrow> sim_state" where
  "loop_body inflation total_y1 medical_shock year s =
     (let age = 65 + int year;
          c = after_drawdown (annual_expense inflation total_y1 medical_shock year) (current_corpus s);
          s1 = (if c \<le> 0 then
                  (if depletion_age s = PyStr ''95+''
                   then s\<lparr>current_corpus := 0, depletion_age := PyInt age, status_color := ''red''\<rparr>
                   else s\<lparr>current_corpus := 0\<rparr>)
                else s\<lparr>current_corpus := c\<rparr>)
      in s1\<lparr>simulation_data := simulation_data s1 @ [\<lparr>Age = age, Corpus = current_corpus s1\<rparr>]\<rparr>)"

text \<open>The \<open>for\<close> loop over a list of years.\<close>

fun sim_loop :: "real \<Rightarrow> real \<Rightarrow> int \<Rightarrow> nat list \<Rightarrow> sim_state \<Rightarrow> sim_state" where
  "sim_loop inflation total_y1 medical_shock [] s = s"
| "sim_loop inflation total_y1 medical_shock (year # years) s =
     sim_loop inflation total_y1 medical_shock years (loop_body inflation total_y1 medical_shock year s)"

text \<open>The state after the first \<open>k\<close> iterations; the script runs all of \<open>range(1, 31)\<close>.\<close>

definition run :: "real \<Rightarrow> string \<Rightarrow> int \<Rightarrow> nat \<Rightarrow> sim_state" where
  "run inflation rent_strategy medical_shock k =
     sim_loop inflation (total_expense_y1 rent_strategy) medical_shock [1..<Suc k] init_state"

definition simulate :: "real \<Rightarrow> string \<Rightarrow> int \<Rightarrow> sim_state" where
  "simulate inflation rent_strategy medical_shock = run inflation rent_strategy medical_shock 30"

text \<open>Line 95: the value shown as Monthly Gap, before it is formatted.\<close>

definition monthly_gap :: "string \<Rightarrow> real" where
  "monthly_gap rent_strategy = (total_expense_y1 rent_strategy - pension) / 12"

text \<open>
  Line 97: \<open>"Critical" if status_color=="red" and depletion_age < 80 else "Safe"\<close>.
  \<open>and\<close> evaluates its right operand only when the left one is true.
\<close>

definition badge_delta :: "string \<Rightarrow> pyval \<Rightarrow> py_error + string" where
  "badge_delta color dep =
     (if color = ''red'' then
        (case py_lt dep 80 of
           Inl e \<Rightarrow> Inl e
         | Inr b \<Rightarrow> Inr (if b then ''Critical'' else ''Safe''))
      else Inr ''Safe'')"

text \<open>What the engine hands to the three metrics and the chart.\<close>

record sunita_out =
  df_sunita :: "point list"
  gap :: real
  depletion :: pyval
  delta :: string
  delta_color :: string
  line_color :: string

definition sunita :: "real \<Rightarrow> string \<Rightarrow> int \<Rightarrow> py_error + sunita_out" where
  "sunita inflation rent_strategy medical_shock =
     (let s = simulate inflation rent_strategy medical_shock
      in case badge_delta (status_color s) (depletion_age s) of
           Inl e \<Rightarrow> Inl e
         | Inr d \<Rightarrow> Inr \<lparr>df_sunita = simulation_data s,
                        gap = monthly_gap rent_strategy,
                        depletion = depletion_age s,
                        delta = d,
                        delta_color = (if status_color s = ''red'' then ''inverse'' else ''normal''),
                        line_color = (if status_color s = ''red'' then ''#ef4444'' else ''#10b981'')\<rparr>)"

text \<open>The inputs the widgets can produce, as the data model of the specification has them.\<close>

definition valid_longevity :: "real \<Rightarrow> string \<Rightarrow> int \<Rightarrow> bool" where
  "valid_longevity inflation rent_strategy medical_shock \<longleftrightarrow>
     4 \<le> inflation \<and> inflation \<le> 10 \<and>
     (rent_strategy = paying_rent_label \<or> rent_strategy = family_home_label) \<and>
     (medical_shock = 0 \<or> medical_shock = 300000 \<or> medical_shock = 500000)"

subsection \<open>Shekhar: the solvency evaluation\<close>

definition equity_val :: "int \<Rightarrow> real" where
  "equity_val market_crash = 16000000 * (1 - real_of_int market_crash / 100)"

definition arbitrage_val :: real where
  "arbitrage_val = 10000000"

definition bond_val :: real where
  "bond_val = 10000000"

definition gold_val :: "int \<Rightarrow> real" where
  "gold_val market_crash = 4000000 * (if market_crash > 15 then 1.10 else 1.0)"

definition total_liquid_assets :: "int \<Rightarrow> real" where
  "total_liquid_assets market_crash =
     equity_val market_crash + arbitrage_val + bond_val + gold_val market_crash"

definition annual_debt_obligation :: real where
  "annual_debt_obligation = 16600000"

definition solvency_ratio :: "int \<Rightarrow> real" where
  "solvency_ratio market_crash = total_liquid_assets market_crash / annual_debt_obligation"

definition house_cost :: "int \<Rightarrow> real" where
  "house_cost house_inflation = 30000000 * ((1.05 + real_of_int house_inflation / 100) ^ 4)"

definition projected_wealth :: "int \<Rightarrow> real" where
  "projected_wealth market_crash = total_liquid_assets market_crash * (1.09 ^ 4)"

definition surplus :: "int \<Rightarrow> int \<Rightarrow> real" where
  "surplus market_crash house_inflation = projected_wealth market_crash - house_cost house_inflation"

text \<open>Lines 154-156: the badge is SAFE exactly when the ratio is at least 2.0.\<close>

definition is_safe :: "int \<Rightarrow> bool" where
  "is_safe market_crash \<longleftrightarrow> solvency_ratio market_crash \<ge> 2.0"

definition delta_msg :: "int \<Rightarrow> string" where
  "delta_msg market_crash = (if is_safe market_crash then ''SAFE (>2.0x)'' else ''RISK (<2.0x)'')"

record shekhar_out =
  ratio :: real
  safe_msg :: string
  goal_surplus :: real

definition shekhar :: "int \<Rightarrow> int \<Rightarrow> shekhar_out" where
  "shekhar market_crash house_inflation =
     \<lparr>ratio = solvency_ratio market_crash,
      safe_msg = delta_msg market_crash,
      goal_surplus = surplus market_crash house_inflation\<rparr>"


section \<open>The loop, iteration by iteration\<close>

text \<open>
  \<open>run\<close> unfolds one iteration at a time. The corpus of a year is the clamped result of
  the drawdown on the corpus of the year before, so it is never negative and never grows.
\<close>

lemma sim_loop_append:
  "sim_loop i t m (xs @ ys) s = sim_loop i t m ys (sim_loop i t m xs s)"
  by (induction xs arbitrary: s) simp_all

lemma run_0: "run i r m 0 = init_state"
  by (simp add: run_def)

lemma run_Suc: "run i r m (Suc k) = loop_body i (total_expense_y1 r) m (Suc k) (run i r m k)"
  by (simp add: run_def sim_loop_append)

lemma loop_body_corpus:
  "current_corpus (loop_body i t m y s) = max 0 (after_drawdown (annual_expense i t m y) (current_corpus s))"
  by (simp add: loop_body_def Let_def max_def)

lemma loop_body_data:
  "simulation_data (loop_body i t m y s) =
     simulation_data s @ [\<lparr>Age = 65 + int y, Corpus = current_corpus (loop_body i t m y s)\<rparr>]"
  by (simp add: loop_body_def Let_def)

lemma loop_body_depletion:
  "depletion_age (loop_body i t m y s) =
     (if current_corpus (loop_body i t m y s) = 0 \<and> depletion_age s = PyStr ''95+''
      then PyInt (65 + int y) else depletion_age s)"
  by (simp add: loop_body_def Let_def)

lemma loop_body_status:
  "status_color (loop_body i t m y s) =
     (if current_corpus (loop_body i t m y s) = 0 \<and> depletion_age s = PyStr ''95+''
      then ''red'' else status_color s)"
  by (simp add: loop_body_def Let_def)

lemma corpus_Suc:
  "current_corpus (run i r m (Suc k)) =
     max 0 (after_drawdown (annual_expense i (total_expense_y1 r) m (Suc k)) (current_corpus (run i r m k)))"
  by (simp add: run_Suc loop_body_corpus)

lemma after_drawdown_le: "after_drawdown e c \<le> c"
  by (simp add: after_drawdown_def Let_def)

lemma corpus_nonneg: "0 \<le> current_corpus (run i r m k)"
  by (cases k) (simp_all add: run_0 init_state_def corpus_def corpus_Suc)

lemma corpus_Suc_le: "current_corpus (run i r m (Suc k)) \<le> current_corpus (run i r m k)"
  using after_drawdown_le [of "annual_expense i (total_expense_y1 r) m (Suc k)" "current_corpus (run i r m k)"]
    corpus_nonneg [of i r m k]
  by (simp add: corpus_Suc)

lemma corpus_antimono: "j \<le> k \<Longrightarrow> current_corpus (run i r m k) \<le> current_corpus (run i r m j)"
proof (induction k)
  case 0
  then show ?case by simp
next
  case (Suc k)
  show ?case
  proof (cases "j = Suc k")
    case True
    then show ?thesis by simp
  next
    case False
    with Suc.prems have "j \<le> k" by simp
    then have "current_corpus (run i r m k) \<le> current_corpus (run i r m j)" by (rule Suc.IH)
    with corpus_Suc_le [of i r m k] show ?thesis by linarith
  qed
qed

lemma corpus_zero_stays:
  "j \<le> k \<Longrightarrow> current_corpus (run i r m j) = 0 \<Longrightarrow> current_corpus (run i r m k) = 0"
  using corpus_antimono [of j k i r m] corpus_nonneg [of i r m k] by simp

lemma data_run:
  "simulation_data (run i r m k) =
     map (\<lambda>y. \<lparr>Age = 65 + int y, Corpus = current_corpus (run i r m y)\<rparr>) [1..<Suc k]"
proof (induction k)
  case 0
  show ?case by (simp add: run_0 init_state_def)
next
  case (Suc k)
  have "simulation_data (run i r m (Suc k)) =
      simulation_data (run i r m k) @ [\<lparr>Age = 65 + int (Suc k), Corpus = current_corpus (run i r m (Suc k))\<rparr>]"
    by (simp only: run_Suc loop_body_data)
  with Suc show ?case by simp
qed

lemma data_nth:
  "j < k \<Longrightarrow> simulation_data (run i r m k) ! j =
     \<lparr>Age = 66 + int j, Corpus = current_corpus (run i r m (Suc j))\<rparr>"
  by (simp add: data_run nth_append del: upt_Suc)


text \<open>
  The invariant of the loop: either no year so far has brought the corpus to 0, the corpus
  is positive and \<open>depletion_age\<close> and \<open>status_color\<close> have their initial values; or
  \<open>depletion_age\<close> is the age of the first year \<open>d\<close> with corpus 0 and \<open>status_color\<close>
  is \<open>"red"\<close>.
\<close>

lemma first_zero_unique:
  assumes "1 \<le> d" "current_corpus (run i r m d) = 0" "0 < current_corpus (run i r m (d - 1))"
    and "1 \<le> d'" "current_corpus (run i r m d') = 0" "0 < current_corpus (run i r m (d' - 1))"
  shows "d = d'"
proof (rule ccontr)
  assume "d \<noteq> d'"
  then consider "d \<le> d' - 1" | "d' \<le> d - 1" using assms(1,4) by linarith
  then show False
  proof cases
    case 1
    from corpus_zero_stays [OF 1 assms(2)] assms(6) show False by simp
  next
    case 2
    from corpus_zero_stays [OF 2 assms(5)] assms(3) show False by simp
  qed
qed

lemma depletion_invariant:
  "(depletion_age (run i r m k) = PyStr ''95+'' \<and> status_color (run i r m k) = ''green'' \<and>
      0 < current_corpus (run i r m k)) \<or>
   (\<exists>d. 1 \<le> d \<and> d \<le> k \<and> depletion_age (run i r m k) = PyInt (65 + int d) \<and>
      status_color (run i r m k) = ''red'' \<and>
      current_corpus (run i r m d) = 0 \<and> 0 < current_corpus (run i r m (d - 1)))"
  (is "?L k \<or> ?R k")
proof (induction k)
  case 0
  show ?case by (simp add: run_0 init_state_def corpus_def)
next
  case (Suc k)
  from Suc show ?case
  proof
    assume L: "?L k"
    show ?thesis
    proof (cases "current_corpus (run i r m (Suc k)) = 0")
      case True
      with L have "1 \<le> Suc k \<and> Suc k \<le> Suc k \<and>
          depletion_age (run i r m (Suc k)) = PyInt (65 + int (Suc k)) \<and>
          status_color (run i r m (Suc k)) = ''red'' \<and>
          current_corpus (run i r m (Suc k)) = 0 \<and> 0 < current_corpus (run i r m (Suc k - 1))"
        by (simp add: run_Suc loop_body_depletion loop_body_status)
      then show ?thesis by blast
    next
      case False
      with corpus_nonneg [of i r m "Suc k"] have "0 < current_corpus (run i r m (Suc k))" by simp
      with L False show ?thesis
        by (simp add: run_Suc loop_body_depletion loop_body_status)
    qed
  next
    assume "?R k"
    then obtain d where d: "1 \<le> d" "d \<le> k" "depletion_age (run i r m k) = PyInt (65 + int d)"
      "status_color (run i r m k) = ''red''" "current_corpus (run i r m d) = 0"
      "0 < current_corpus (run i r m (d - 1))" by blast
    then have "1 \<le> d \<and> d \<le> Suc k \<and> depletion_age (run i r m (Suc k)) = PyInt (65 + int d) \<and>
      status_color (run i r m (Suc k)) = ''red'' \<and>
      current_corpus (run i r m d) = 0 \<and> 0 < current_corpus (run i r m (d - 1))"
      by (simp add: run_Suc loop_body_depletion loop_body_status)
    then show ?thesis by blast
  qed
qed

lemma depletion_str_iff:
  "depletion_age (run i r m k) = PyStr ''95+'' \<longleftrightarrow> 0 < current_corpus (run i r m k)"
proof
  assume str: "depletion_age (run i r m k) = PyStr ''95+''"
  with depletion_invariant [of i r m k] show "0 < current_corpus (run i r m k)" by auto
next
  assume pos: "0 < current_corpus (run i r m k)"
  show "depletion_age (run i r m k) = PyStr ''95+''"
  proof (rule ccontr)
    assume "depletion_age (run i r m k) \<noteq> PyStr ''95+''"
    with depletion_invariant [of i r m k] obtain d where "d \<le> k" "current_corpus (run i r m d) = 0"
      by blast
    from corpus_zero_stays [OF this] pos show False by simp
  qed
qed

lemma depletion_first_zero:
  assumes "1 \<le> d" "d \<le> k" "current_corpus (run i r m d) = 0" "0 < current_corpus (run i r m (d - 1))"
  shows "depletion_age (run i r m k) = PyInt (65 + int d) \<and> status_color (run i r m k) = ''red''"
proof -
  from corpus_zero_stays [OF assms(2,3)] have "\<not> 0 < current_corpus (run i r m k)" by simp
  with depletion_invariant [of i r m k] obtain d' where d': "1 \<le> d'"
    "depletion_age (run i r m k) = PyInt (65 + int d')" "status_color (run i r m k) = ''red''"
    "current_corpus (run i r m d') = 0" "0 < current_corpus (run i r m (d' - 1))" by blast
  from first_zero_unique [OF assms(1,3,4) d'(1,4,5)] have "d = d'" .
  with d' show ?thesis by simp
qed

lemma red_iff_int:
  "status_color (run i r m k) = ''red'' \<longleftrightarrow> (\<exists>a. depletion_age (run i r m k) = PyInt a)"
  using depletion_invariant [of i r m k] by auto


subsection \<open>Two runs, year by year\<close>

text \<open>
  The runs with the paying-rent option and a medical shock of 500,000, at inflation rates
  of 10 and of 4, up to the year in which the corpus reaches 0.
\<close>

lemma total_paying_rent: "total_expense_y1 paying_rent_label = 600000"
  by (simp add: total_expense_y1_def rent_expense_def base_living_expense_def)

lemma corpus_step:
  "k = Suc j \<Longrightarrow> current_corpus (run i r m k) =
     max 0 (after_drawdown (annual_expense i (total_expense_y1 r) m k) (current_corpus (run i r m j)))"
  by (simp add: corpus_Suc)

lemmas eval_defs = total_paying_rent annual_expense_def after_drawdown_def pension_def Let_def power_divide

lemma corpus_start: "current_corpus (run i r m 0) = 2500000"
  by (simp add: run_0 init_state_def corpus_def)

lemma rate10_1: "current_corpus (run 10 paying_rent_label 500000 (Suc 0)) = 2395000"
  using corpus_step [of 1 0 10 paying_rent_label 500000]
  by (simp add: corpus_start eval_defs)

lemma rate10_2: "current_corpus (run 10 paying_rent_label 500000 2) = 2221810"
  using corpus_step [of 2 1 10 paying_rent_label 500000]
  by (simp add: rate10_1 eval_defs)

lemma rate10_3: "current_corpus (run 10 paying_rent_label 500000 3) = 98455559 / 50"
  using corpus_step [of 3 2 10 paying_rent_label 500000]
  by (simp add: rate10_2 eval_defs)

lemma rate10_4: "current_corpus (run 10 paying_rent_label 500000 4) = 40602546301 / 25000"
  using corpus_step [of 4 3 10 paying_rent_label 500000]
  by (simp add: rate10_3 eval_defs)

lemma rate10_5: "current_corpus (run 10 paying_rent_label 500000 5) = 8404022456239 / 12500000"
  using corpus_step [of 5 4 10 paying_rent_label 500000]
  by (simp add: rate10_4 eval_defs)

lemma rate10_6: "current_corpus (run 10 paying_rent_label 500000 6) = 365355603912821 / 6250000000"
  using corpus_step [of 6 5 10 paying_rent_label 500000]
  by (simp add: rate10_5 eval_defs)

lemma rate10_7: "current_corpus (run 10 paying_rent_label 500000 7) = 0"
  using corpus_step [of 7 6 10 paying_rent_label 500000]
  by (simp add: rate10_6 eval_defs)

lemma rate4_1: "current_corpus (run 4 paying_rent_label 500000 (Suc 0)) = 2395000"
  using corpus_step [of 1 0 4 paying_rent_label 500000]
  by (simp add: corpus_start eval_defs)

lemma rate4_2: "current_corpus (run 4 paying_rent_label 500000 2) = 2257810"
  using corpus_step [of 2 1 4 paying_rent_label 500000]
  by (simp add: rate4_1 eval_defs)

lemma rate4_3: "current_corpus (run 4 paying_rent_label 500000 3) = 104247959 / 50"
  using corpus_step [of 3 2 4 paying_rent_label 500000]
  by (simp add: rate4_2 eval_defs)

lemma rate4_4: "current_corpus (run 4 paying_rent_label 500000 4) = 46816689901 / 25000"
  using corpus_step [of 4 3 4 paying_rent_label 500000]
  by (simp add: rate4_3 eval_defs)

lemma rate4_5: "current_corpus (run 4 paying_rent_label 500000 5) = 13960256656639 / 12500000"
  using corpus_step [of 5 4 4 paying_rent_label 500000]
  by (simp add: rate4_4 eval_defs)

lemma rate4_6: "current_corpus (run 4 paying_rent_label 500000 6) = 4837129953928421 / 6250000000"
  using corpus_step [of 6 5 4 paying_rent_label 500000]
  by (simp add: rate4_5 eval_defs)

lemma rate4_7: "current_corpus (run 4 paying_rent_label 500000 7) = 1172239885487418919 / 3125000000000"
  using corpus_step [of 7 6 4 paying_rent_label 500000]
  by (simp add: rate4_6 eval_defs)

lemma rate4_8: "current_corpus (run 4 paying_rent_label 500000 8) = 0"
  using corpus_step [of 8 7 4 paying_rent_label 500000]
  by (simp add: rate4_7 eval_defs)

lemma data_corpus:
  "j < 30 \<Longrightarrow> Corpus (simulation_data (simulate i r m) ! j) = current_corpus (run i r m (Suc j))"
  by (simp add: simulate_def data_nth)

lemma data_age:
  "j < 30 \<Longrightarrow> Age (simulation_data (simulate i r m) ! j) = 66 + int j"
  by (simp add: simulate_def data_nth)

section \<open>Properties of the longevity simulation\<close>

text \<open>
  C1. For every input, so for every valid one, the recorded corpus is never negative: each
  year's entry is the year's corpus after the drawdown clamped at zero (so where the
  drawdown takes the corpus to zero or below, the entry is exactly 0); once an entry is 0,
  every later entry of the 30-year series is 0; \<open>depletion_age\<close> is the age of the
  first entry that is 0 (and stays \<open>"95+"\<close> when there is none), and once an iteration
  has set it to an age, no later iteration changes it.
\<close>

theorem depletion_is_permanent:
  "(\<forall>j<30. 0 \<le> Corpus (simulation_data (simulate i r m) ! j)) \<and>
   (\<forall>j<30. Corpus (simulation_data (simulate i r m) ! j) =
      max 0 (after_drawdown (annual_expense i (total_expense_y1 r) m (Suc j))
               (if j = 0 then corpus else Corpus (simulation_data (simulate i r m) ! (j - 1))))) \<and>
   (\<forall>j k. j \<le> k \<and> k < 30 \<and> Corpus (simulation_data (simulate i r m) ! j) = 0 \<longrightarrow>
      Corpus (simulation_data (simulate i r m) ! k) = 0) \<and>
   (\<forall>j<30. Corpus (simulation_data (simulate i r m) ! j) = 0 \<and>
      (\<forall>l<j. Corpus (simulation_data (simulate i r m) ! l) \<noteq> 0) \<longrightarrow>
      depletion_age (simulate i r m) = PyInt (Age (simulation_data (simulate i r m) ! j))) \<and>
   ((\<forall>j<30. Corpus (simulation_data (simulate i r m) ! j) \<noteq> 0) \<longrightarrow>
      depletion_age (simulate i r m) = PyStr ''95+'') \<and>
   (\<forall>k n a. k \<le> n \<and> depletion_age (run i r m k) = PyInt a \<longrightarrow>
      depletion_age (run i r m n) = PyInt a)"
proof (intro conjI allI impI)
  fix j :: nat
  assume "j < 30"
  then show "0 \<le> Corpus (simulation_data (simulate i r m) ! j)"
    by (simp add: data_corpus corpus_nonneg)
next
  fix j :: nat
  assume j: "j < 30"
  show "Corpus (simulation_data (simulate i r m) ! j) =
      max 0 (after_drawdown (annual_expense i (total_expense_y1 r) m (Suc j))
               (if j = 0 then corpus else Corpus (simulation_data (simulate i r m) ! (j - 1))))"
  proof (cases j)
    case 0
    then show ?thesis by (simp add: data_corpus corpus_Suc run_0 init_state_def)
  next
    case (Suc j')
    with j have "j' < 30" by simp
    with Suc j show ?thesis by (simp add: data_corpus corpus_Suc)
  qed
next
  fix j k :: nat
  assume a: "j \<le> k \<and> k < 30 \<and> Corpus (simulation_data (simulate i r m) ! j) = 0"
  then have "j < 30" "k < 30" "Suc j \<le> Suc k" by simp_all
  with a corpus_zero_stays [of "Suc j" "Suc k" i r m]
  show "Corpus (simulation_data (simulate i r m) ! k) = 0"
    by (simp add: data_corpus)
next
  fix j :: nat
  assume j: "j < 30"
    and a: "Corpus (simulation_data (simulate i r m) ! j) = 0 \<and>
      (\<forall>l<j. Corpus (simulation_data (simulate i r m) ! l) \<noteq> 0)"
  from j a have z: "current_corpus (run i r m (Suc j)) = 0" by (simp add: data_corpus)
  have "current_corpus (run i r m j) \<noteq> 0"
  proof (cases j)
    case 0
    then show ?thesis by (simp add: corpus_start)
  next
    case (Suc j')
    with a have "Corpus (simulation_data (simulate i r m) ! j') \<noteq> 0" by simp
    moreover from Suc j have "j' < 30" by simp
    ultimately show ?thesis using Suc by (simp add: data_corpus)
  qed
  with corpus_nonneg [of i r m j] have p: "0 < current_corpus (run i r m (Suc j - 1))" by simp
  from j have "Suc j \<le> 30" by simp
  from depletion_first_zero [OF _ this z p] j
  show "depletion_age (simulate i r m) = PyInt (Age (simulation_data (simulate i r m) ! j))"
    by (simp add: simulate_def data_nth)
next
  assume a: "\<forall>j<30. Corpus (simulation_data (simulate i r m) ! j) \<noteq> 0"
  then have "Corpus (simulation_data (simulate i r m) ! 29) \<noteq> 0" by simp
  then have "current_corpus (run i r m 30) \<noteq> 0" by (simp add: data_corpus)
  with corpus_nonneg [of i r m 30] have "0 < current_corpus (run i r m 30)" by simp
  then show "depletion_age (simulate i r m) = PyStr ''95+''"
    by (simp add: simulate_def depletion_str_iff)
next
  fix k n :: nat and a :: int
  assume a: "k \<le> n \<and> depletion_age (run i r m k) = PyInt a"
  with depletion_invariant [of i r m k] obtain d where d: "1 \<le> d" "d \<le> k" "a = 65 + int d"
    "current_corpus (run i r m d) = 0" "0 < current_corpus (run i r m (d - 1))" by auto
  from d(2) a have "d \<le> n" by simp
  from depletion_first_zero [OF d(1) this d(4,5)] d(3)
  show "depletion_age (run i r m n) = PyInt a" by simp
qed

theorem depletion_is_permanent_witness:
  "0 < Corpus (simulation_data (simulate 10 paying_rent_label 500000) ! 5) \<and>
   Corpus (simulation_data (simulate 10 paying_rent_label 500000) ! 6) = 0 \<and>
   Corpus (simulation_data (simulate 10 paying_rent_label 500000) ! 7) = 0 \<and>
   Corpus (simulation_data (simulate 10 paying_rent_label 500000) ! 29) = 0 \<and>
   Age (simulation_data (simulate 10 paying_rent_label 500000) ! 6) = 72 \<and>
   depletion_age (run 10 paying_rent_label 500000 7) = PyInt 72 \<and>
   depletion_age (simulate 10 paying_rent_label 500000) = PyInt 72"
proof -
  let ?sd = "simulation_data (simulate 10 paying_rent_label 500000)"
  note main = depletion_is_permanent [of 10 paying_rent_label 500000]
  have c5: "0 < Corpus (?sd ! 5)" by (simp add: data_corpus rate10_6)
  have c6: "Corpus (?sd ! 6) = 0" by (simp add: data_corpus rate10_7)
  have before: "\<forall>l<6. Corpus (?sd ! l) \<noteq> 0"
  proof (intro allI impI)
    fix l :: nat
    assume l: "l < 6"
    then have "Suc l \<le> 6" by simp
    from corpus_antimono [OF this, of 10 paying_rent_label 500000]
    have "0 < current_corpus (run 10 paying_rent_label 500000 (Suc l))" by (simp add: rate10_6)
    with l show "Corpus (?sd ! l) \<noteq> 0" by (simp add: data_corpus)
  qed
  have a6: "Age (?sd ! 6) = 72" by (simp add: data_age)
  have d7: "depletion_age (run 10 paying_rent_label 500000 7) = PyInt 72"
    using depletion_first_zero [of 7 7 10 paying_rent_label 500000] by (simp add: rate10_6 rate10_7)
  note mono = main [THEN conjunct2, THEN conjunct2, THEN conjunct1, rule_format]
  note first = main [THEN conjunct2, THEN conjunct2, THEN conjunct2, THEN conjunct1, rule_format]
  note keep = main [THEN conjunct2, THEN conjunct2, THEN conjunct2, THEN conjunct2, THEN conjunct2,
      rule_format]
  from mono [of 6 7] c6 have c7: "Corpus (?sd ! 7) = 0" by simp
  from mono [of 6 29] c6 have c29: "Corpus (?sd ! 29) = 0" by simp
  from first [of 6] c6 before a6 have dep: "depletion_age (simulate 10 paying_rent_label 500000) = PyInt 72"
    by simp
  from keep [of 7 30 72] d7 have "depletion_age (run 10 paying_rent_label 500000 30) = PyInt 72"
    by simp
  with c5 c6 c7 c29 a6 d7 dep show ?thesis by simp
qed

lemma badge_delta_run:
  "badge_delta (status_color (run i r m k)) (depletion_age (run i r m k)) =
     Inr (if \<exists>a. depletion_age (run i r m k) = PyInt a \<and> a < 80 then ''Critical'' else ''Safe'')"
proof (cases "status_color (run i r m k) = ''red''")
  case True
  with red_iff_int [of i r m k] obtain a where "depletion_age (run i r m k) = PyInt a" by blast
  with True show ?thesis by (simp add: badge_delta_def)
next
  case False
  with red_iff_int [of i r m k] have "\<not> (\<exists>a. depletion_age (run i r m k) = PyInt a)" by simp
  with False show ?thesis by (simp add: badge_delta_def)
qed

lemma sunita_returns:
  "sunita i r m = Inr \<lparr>df_sunita = simulation_data (simulate i r m),
      gap = monthly_gap r,
      depletion = depletion_age (simulate i r m),
      delta = (if \<exists>a. depletion_age (simulate i r m) = PyInt a \<and> a < 80 then ''Critical'' else ''Safe''),
      delta_color = (if status_color (simulate i r m) = ''red'' then ''inverse'' else ''normal''),
      line_color = (if status_color (simulate i r m) = ''red'' then ''#ef4444'' else ''#10b981'')\<rparr>"
  unfolding sunita_def Let_def simulate_def badge_delta_run by simp

text \<open>
  C10. The badge of the depletion-age metric never compares the string \<open>"95+"\<close> with a
  number. Unless \<open>status_color\<close> is \<open>"red"\<close> the comparison is not evaluated and the
  badge is \<open>"Safe"\<close>, whatever \<open>depletion_age\<close> holds; evaluated on a string it would
  raise TypeError; and after the loop, for every input, \<open>status_color\<close> is \<open>"red"\<close> only
  when \<open>depletion_age\<close> holds an integer, so neither the badge nor the engine raises.
\<close>

theorem badge_never_compares_string:
  "(c \<noteq> ''red'' \<longrightarrow> badge_delta c d = Inr ''Safe'') \<and>
   badge_delta ''red'' (PyStr s) = Inl TypeError \<and>
   (status_color (simulate i r m) = ''red'' \<longrightarrow> (\<exists>a. depletion_age (simulate i r m) = PyInt a)) \<and>
   badge_delta (status_color (simulate i r m)) (depletion_age (simulate i r m)) \<noteq> Inl TypeError \<and>
   sunita i r m \<noteq> Inl TypeError"
proof (intro conjI impI)
  assume "c \<noteq> ''red''"
  then show "badge_delta c d = Inr ''Safe''" by (simp add: badge_delta_def)
next
  show "badge_delta ''red'' (PyStr s) = Inl TypeError" by (simp add: badge_delta_def)
next
  assume "status_color (simulate i r m) = ''red''"
  then show "\<exists>a. depletion_age (simulate i r m) = PyInt a"
    by (simp add: simulate_def red_iff_int)
next
  show "badge_delta (status_color (simulate i r m)) (depletion_age (simulate i r m)) \<noteq> Inl TypeError"
    by (simp add: simulate_def badge_delta_run)
next
  show "sunita i r m \<noteq> Inl TypeError" by (simp add: sunita_returns)
qed

lemma rate10_final:
  "depletion_age (simulate 10 paying_rent_label 500000) = PyInt 72 \<and>
   status_color (simulate 10 paying_rent_label 500000) = ''red''"
  using depletion_first_zero [of 7 30 10 paying_rent_label 500000]
  by (simp add: simulate_def rate10_6 rate10_7)

theorem badge_never_compares_string_witness:
  "badge_delta ''green'' (PyStr ''95+'') = Inr ''Safe'' \<and>
   status_color (simulate 10 paying_rent_label 500000) = ''red'' \<and>
   depletion_age (simulate 10 paying_rent_label 500000) = PyInt 72 \<and>
   badge_delta (status_color (simulate 10 paying_rent_label 500000))
     (depletion_age (simulate 10 paying_rent_label 500000)) = Inr ''Critical'' \<and>
   sunita 10 paying_rent_label 500000 \<noteq> Inl TypeError"
proof -
  note a = badge_never_compares_string [of "''green''" "PyStr ''95+''" "''x''" 10 paying_rent_label 500000]
  from a have g: "badge_delta ''green'' (PyStr ''95+'') = Inr ''Safe''" by simp
  from a have s: "sunita 10 paying_rent_label 500000 \<noteq> Inl TypeError" by simp
  have "badge_delta (status_color (simulate 10 paying_rent_label 500000))
     (depletion_age (simulate 10 paying_rent_label 500000)) = Inr ''Critical''"
    by (simp add: rate10_final badge_delta_def)
  with g s rate10_final show ?thesis by simp
qed

section \<open>The monthly gap\<close>

lemma total_expense_y1_eq:
  "total_expense_y1 r = 480000 + (if r = paying_rent_label then 120000 else 0)"
  by (simp add: total_expense_y1_def rent_expense_def base_living_expense_def)

lemma length_data: "length (simulation_data (simulate i r m)) = 30"
  by (simp add: simulate_def data_run del: upt_Suc)

text \<open>
  C7. For every input, so for every valid one, the engine returns, and the monthly gap it
  shows is \<open>(total_expense_y1 - pension) / 12\<close> with \<open>total_expense_y1\<close> equal to 480,000
  plus 120,000 when the strategy is the paying-rent option; two runs with the same strategy
  show the same gap whatever their inflation rates and medical shocks; with the paying-rent
  option it is 25,000.
\<close>

theorem monthly_gap_depends_on_rent_only:
  "(\<exists>out. sunita i r m = Inr out \<and>
      gap out = ((480000 + (if r = paying_rent_label then 120000 else 0)) - 300000) / 12) \<and>
   (\<exists>out out'. sunita i r m = Inr out \<and> sunita i' r m' = Inr out' \<and> gap out = gap out') \<and>
   monthly_gap paying_rent_label = (480000 + 120000 - 300000) / 12 \<and>
   monthly_gap paying_rent_label = 25000"
proof (intro conjI)
  show "\<exists>out. sunita i r m = Inr out \<and>
      gap out = ((480000 + (if r = paying_rent_label then 120000 else 0)) - 300000) / 12"
    by (simp add: sunita_returns monthly_gap_def total_expense_y1_eq pension_def)
next
  show "\<exists>out out'. sunita i r m = Inr out \<and> sunita i' r m' = Inr out' \<and> gap out = gap out'"
    by (simp add: sunita_returns)
next
  show "monthly_gap paying_rent_label = (480000 + 120000 - 300000) / 12"
    by (simp add: monthly_gap_def total_expense_y1_eq pension_def)
next
  show "monthly_gap paying_rent_label = 25000"
    by (simp add: monthly_gap_def total_expense_y1_eq pension_def)
qed

theorem monthly_gap_depends_on_rent_only_witness:
  "gap (projr (sunita 6 paying_rent_label 0)) = 25000 \<and>
   gap (projr (sunita 6 family_home_label 0)) = 15000 \<and>
   gap (projr (sunita 6 paying_rent_label 0)) = gap (projr (sunita 10 paying_rent_label 500000))"
proof -
  have ne: "family_home_label \<noteq> paying_rent_label"
    by (simp add: family_home_label_def paying_rent_label_def)
  from monthly_gap_depends_on_rent_only [of 6 paying_rent_label 0 10 500000]
  have a: "gap (projr (sunita 6 paying_rent_label 0)) = 25000"
    and b: "gap (projr (sunita 6 paying_rent_label 0)) = gap (projr (sunita 10 paying_rent_label 500000))"
    by auto
  from monthly_gap_depends_on_rent_only [of 6 family_home_label 0 6 0] ne
  have c: "gap (projr (sunita 6 family_home_label 0)) = 15000" by auto
  from a b c show ?thesis by simp
qed

section \<open>Properties of the solvency evaluation\<close>

lemma total_liquid_assets_eq:
  "total_liquid_assets mc =
     36000000 - 160000 * real_of_int mc + (if mc > 15 then 4400000 else 4000000)"
  by (simp add: total_liquid_assets_def equity_val_def arbitrage_val_def bond_val_def gold_val_def)

lemma solvency_ratio_eq:
  "solvency_ratio mc =
     (36000000 - 160000 * real_of_int mc + (if mc > 15 then 4400000 else 4000000)) / 16600000"
  by (simp add: solvency_ratio_def total_liquid_assets_eq annual_debt_obligation_def)

text \<open>
  C2. The gold value is 4,000,000 times 1.10 exactly when the market drop is above 15, and
  4,000,000 otherwise; at 15 the hedge does not trigger, and the solvency ratio at 16 is
  above the ratio at 15.
\<close>

theorem gold_hedge_is_a_step:
  "(gold_val mc = 4000000 * 1.10 \<longleftrightarrow> mc > 15) \<and>
   (\<not> mc > 15 \<longrightarrow> gold_val mc = 4000000) \<and>
   gold_val 15 = 4000000 \<and>
   solvency_ratio 15 < solvency_ratio 16 \<and>
   ratio (shekhar 15 h) < ratio (shekhar 16 h)"
proof (intro conjI impI)
  show "gold_val mc = 4000000 * 1.10 \<longleftrightarrow> mc > 15" by (simp add: gold_val_def)
next
  assume "\<not> mc > 15"
  then show "gold_val mc = 4000000" by (simp add: gold_val_def)
next
  show "gold_val 15 = 4000000" by (simp add: gold_val_def)
next
  show "solvency_ratio 15 < solvency_ratio 16" by (simp add: solvency_ratio_eq)
next
  show "ratio (shekhar 15 h) < ratio (shekhar 16 h)" by (simp add: shekhar_def solvency_ratio_eq)
qed

theorem gold_hedge_is_a_step_witness:
  "gold_val 20 = 4400000 \<and> gold_val 10 = 4000000 \<and> gold_val 16 = 4400000 \<and>
   solvency_ratio 15 = 188 / 83 \<and> solvency_ratio 16 = 946 / 415"
proof -
  from gold_hedge_is_a_step [of 20] have "gold_val 20 = 4400000" by simp
  moreover from gold_hedge_is_a_step [of 10] have "gold_val 10 = 4000000" by simp
  moreover from gold_hedge_is_a_step [of 16] have "gold_val 16 = 4400000" by simp
  moreover have "solvency_ratio 15 = 188 / 83" by (simp add: solvency_ratio_eq)
  moreover have "solvency_ratio 16 = 946 / 415" by (simp add: solvency_ratio_eq)
  ultimately show ?thesis by simp
qed

text \<open>
  C3, as stated, does not hold: at a market drop of 50 the equity value is not 0.
\<close>

theorem equity_at_fifty_is_not_zero: "equity_val 50 \<noteq> 0"
  by (simp add: equity_val_def)

text \<open>
  C3, amended. At a market drop of 50 the equity value is 8,000,000.
\<close>

theorem equity_at_fifty_is_half: "equity_val 50 = 8000000"
  by (simp add: equity_val_def)

text \<open>
  C4. At a market drop of 50, whatever the house price surge, the equity value is
  8,000,000, the gold value 4,400,000, the liquid assets 32,400,000, the solvency ratio
  32,400,000 / 16,600,000, which is 1.95 to two decimals, and the badge is RISK (not safe).
\<close>

theorem crash_of_fifty_is_not_safe:
  "equity_val 50 = 8000000 \<and>
   gold_val 50 = 4400000 \<and>
   total_liquid_assets 50 = 32400000 \<and>
   solvency_ratio 50 = 32400000 / 16600000 \<and>
   ratio (shekhar 50 h) = 32400000 / 16600000 \<and>
   \<bar>ratio (shekhar 50 h) - 1.95\<bar> < 0.005 \<and>
   \<not> is_safe 50 \<and>
   safe_msg (shekhar 50 h) = ''RISK (<2.0x)''"
proof -
  have e: "equity_val 50 = 8000000" by (simp add: equity_val_def)
  have g: "gold_val 50 = 4400000" by (simp add: gold_val_def)
  have t: "total_liquid_assets 50 = 32400000"
    by (simp add: total_liquid_assets_def e g arbitrage_val_def bond_val_def)
  have s: "solvency_ratio 50 = 32400000 / 16600000"
    by (simp add: solvency_ratio_def t annual_debt_obligation_def)
  have r: "ratio (shekhar 50 h) = 32400000 / 16600000" by (simp add: shekhar_def s)
  have a: "\<bar>ratio (shekhar 50 h) - 1.95\<bar> < 0.005" by (simp add: r)
  have n: "\<not> is_safe 50" by (simp add: is_safe_def s)
  have m: "safe_msg (shekhar 50 h) = ''RISK (<2.0x)''" by (simp add: shekhar_def delta_msg_def n)
  from e g t s r a n m show ?thesis by simp
qed

text \<open>
  C5. With the house price surge fixed, the solvency ratio decreases strictly in the market
  drop up to 15: for \<open>a < b \<le> 15\<close> the ratio at \<open>a\<close> is above the ratio at \<open>b\<close>.
\<close>

theorem ratio_decreases_up_to_fifteen:
  "a < b \<Longrightarrow> b \<le> 15 \<Longrightarrow> ratio (shekhar b h) < ratio (shekhar a h)"
  by (simp add: shekhar_def solvency_ratio_eq)

theorem ratio_decreases_up_to_fifteen_witness:
  "(5::int) < 10 \<and> (10::int) \<le> 15 \<and> ratio (shekhar 10 5) < ratio (shekhar 5 5) \<and>
   ratio (shekhar 10 5) = 192 / 83 \<and> ratio (shekhar 5 5) = 196 / 83"
proof -
  have "ratio (shekhar 10 5) < ratio (shekhar 5 5)"
    using ratio_decreases_up_to_fifteen [of 5 10 5] by simp
  moreover have "ratio (shekhar 10 5) = 192 / 83" by (simp add: shekhar_def solvency_ratio_eq)
  moreover have "ratio (shekhar 5 5) = 196 / 83" by (simp add: shekhar_def solvency_ratio_eq)
  ultimately show ?thesis by simp
qed

section \<open>Inflation and the depletion age\<close>

lemma after_drawdown_mono:
  "c \<le> c' \<Longrightarrow> e' \<le> e \<Longrightarrow> after_drawdown e c \<le> after_drawdown e' c'"
  by (simp add: after_drawdown_def Let_def max_def pension_def)

lemma after_drawdown_strict:
  "c < c' \<Longrightarrow> e' \<le> e \<Longrightarrow> after_drawdown e c < after_drawdown e' c'"
  by (simp add: after_drawdown_def Let_def max_def pension_def)

lemma after_drawdown_strict_expense:
  "e' < e \<Longrightarrow> pension + max 0 (c * 0.078) < e \<Longrightarrow> after_drawdown e c < after_drawdown e' c"
  by (simp add: after_drawdown_def Let_def max_def pension_def)

lemma total_expense_y1_ge: "480000 \<le> total_expense_y1 r"
  by (simp add: total_expense_y1_eq)

lemma annual_expense_mono:
  assumes "0 \<le> t" "0 \<le> 1 + r1 / 100" "r1 \<le> r2"
  shows "annual_expense r1 t m y \<le> annual_expense r2 t m y"
proof -
  from assms(3) have "1 + r1 / 100 \<le> 1 + r2 / 100" by simp
  with assms(2) have "(1 + r1 / 100) ^ (y - 1) \<le> (1 + r2 / 100) ^ (y - 1)" by (simp add: power_mono)
  with assms(1) have "t * (1 + r1 / 100) ^ (y - 1) \<le> t * (1 + r2 / 100) ^ (y - 1)"
    by (simp add: mult_left_mono)
  then show ?thesis by (auto simp: annual_expense_def Let_def)
qed

lemma corpus_mono_inflation:
  assumes "0 \<le> 1 + r1 / 100" "r1 \<le> r2"
  shows "current_corpus (run r2 rs m k) \<le> current_corpus (run r1 rs m k)"
proof (induction k)
  case 0
  show ?case by (simp add: corpus_start)
next
  case (Suc k)
  have t: "0 \<le> total_expense_y1 rs" using total_expense_y1_ge [of rs] by simp
  have "annual_expense r1 (total_expense_y1 rs) m (Suc k) \<le> annual_expense r2 (total_expense_y1 rs) m (Suc k)"
    using t assms by (rule annual_expense_mono)
  with Suc have "after_drawdown (annual_expense r2 (total_expense_y1 rs) m (Suc k)) (current_corpus (run r2 rs m k))
      \<le> after_drawdown (annual_expense r1 (total_expense_y1 rs) m (Suc k)) (current_corpus (run r1 rs m k))"
    by (rule after_drawdown_mono)
  then show ?case by (simp add: corpus_Suc)
qed

lemma corpus_le_start: "current_corpus (run i r m k) \<le> 2500000"
  using corpus_antimono [of 0 k i r m] by (simp add: corpus_start)

lemma corpus_first_year: "current_corpus (run r2 rs m (Suc 0)) = current_corpus (run r1 rs m (Suc 0))"
  by (simp add: corpus_Suc corpus_start annual_expense_def Let_def)

lemma corpus_second_year:
  assumes "4 \<le> r1" "r1 < r2"
  shows "current_corpus (run r2 rs m 2) < current_corpus (run r1 rs m 2) \<or>
         current_corpus (run r2 rs m 2) = 0"
proof -
  let ?t = "total_expense_y1 rs"
  let ?c = "current_corpus (run r1 rs m (Suc 0))"
  have c2: "current_corpus (run r2 rs m (Suc 0)) = ?c" by (rule corpus_first_year)
  have e: "annual_expense r ?t m 2 = ?t * (1 + r / 100)" for r
    by (simp add: annual_expense_def Let_def)
  have t: "480000 \<le> ?t" by (rule total_expense_y1_ge)
  then have tpos: "0 < ?t" by simp
  from assms(2) have "1 + r1 / 100 < 1 + r2 / 100" by simp
  with tpos have lt: "?t * (1 + r1 / 100) < ?t * (1 + r2 / 100)" by (rule mult_strict_left_mono [rotated])
  from assms(1) have "104 / 100 \<le> 1 + r1 / 100" by simp
  with t have "480000 * (104 / 100) \<le> ?t * (1 + r1 / 100)" by (intro mult_mono) simp_all
  then have big: "499200 \<le> ?t * (1 + r1 / 100)" by simp
  have "?c \<le> 2500000" by (rule corpus_le_start)
  then have "pension + max 0 (?c * 0.078) \<le> 495000" by (simp add: pension_def max_def)
  with big lt have pos: "pension + max 0 (?c * 0.078) < annual_expense r2 ?t m 2" by (simp add: e)
  from lt have "annual_expense r1 ?t m 2 < annual_expense r2 ?t m 2" by (simp add: e)
  from after_drawdown_strict_expense [OF this pos]
  have "after_drawdown (annual_expense r2 ?t m 2) ?c < after_drawdown (annual_expense r1 ?t m 2) ?c" .
  moreover have "current_corpus (run r2 rs m 2) = max 0 (after_drawdown (annual_expense r2 ?t m 2) ?c)"
    using corpus_step [of 2 "Suc 0" r2 rs m] c2 by simp
  moreover have "current_corpus (run r1 rs m 2) = max 0 (after_drawdown (annual_expense r1 ?t m 2) ?c)"
    using corpus_step [of 2 "Suc 0" r1 rs m] by simp
  ultimately show ?thesis by (simp add: max_def)
qed

lemma corpus_strict_inflation:
  assumes "4 \<le> r1" "r1 < r2"
  shows "current_corpus (run r2 rs m (Suc (Suc k))) < current_corpus (run r1 rs m (Suc (Suc k))) \<or>
         current_corpus (run r2 rs m (Suc (Suc k))) = 0"
proof (induction k)
  case 0
  from corpus_second_year [OF assms, of rs m] show ?case by (simp add: numeral_2_eq_2)
next
  case (Suc k)
  let ?n = "Suc (Suc k)"
  from Suc show ?case
  proof
    assume lt: "current_corpus (run r2 rs m ?n) < current_corpus (run r1 rs m ?n)"
    have t: "0 \<le> total_expense_y1 rs" using total_expense_y1_ge [of rs] by simp
    from assms have "0 \<le> 1 + r1 / 100" "r1 \<le> r2" by simp_all
    with t have "annual_expense r1 (total_expense_y1 rs) m (Suc ?n)
        \<le> annual_expense r2 (total_expense_y1 rs) m (Suc ?n)" by (rule annual_expense_mono)
    with lt have "after_drawdown (annual_expense r2 (total_expense_y1 rs) m (Suc ?n)) (current_corpus (run r2 rs m ?n))
        < after_drawdown (annual_expense r1 (total_expense_y1 rs) m (Suc ?n)) (current_corpus (run r1 rs m ?n))"
      by (rule after_drawdown_strict)
    then show ?thesis by (simp add: corpus_Suc [of _ _ _ ?n] max_def)
  next
    assume "current_corpus (run r2 rs m ?n) = 0"
    with corpus_zero_stays [of ?n "Suc ?n" r2 rs m] show ?thesis by simp
  qed
qed


lemma rate4_final:
  "depletion_age (simulate 4 paying_rent_label 500000) = PyInt 73 \<and>
   status_color (simulate 4 paying_rent_label 500000) = ''red''"
  using depletion_first_zero [of 8 30 4 paying_rent_label 500000]
  by (simp add: simulate_def rate4_7 rate4_8)

text \<open>
  C6. With the rent strategy and the medical shock fixed, a higher inflation rate never
  gives a later depletion age. For inflation rates \<open>4 \<le> r1 < r2\<close> (so for any two valid
  rates): either the run at \<open>r2\<close> depletes, and at an age no later than the age of the run
  at \<open>r1\<close> if that one depletes at all; or neither run depletes within the 30 years and
  the corpus of the last year is strictly lower at \<open>r2\<close> than at \<open>r1\<close>.
\<close>

theorem higher_inflation_depletes_no_later:
  assumes "4 \<le> r1" and "r1 < r2"
  shows "(\<exists>a2. depletion_age (simulate r2 rs m) = PyInt a2 \<and>
            (\<forall>a1. depletion_age (simulate r1 rs m) = PyInt a1 \<longrightarrow> a2 \<le> a1)) \<or>
         (depletion_age (simulate r1 rs m) = PyStr ''95+'' \<and>
          depletion_age (simulate r2 rs m) = PyStr ''95+'' \<and>
          Corpus (simulation_data (simulate r2 rs m) ! 29)
            < Corpus (simulation_data (simulate r1 rs m) ! 29))"
proof (cases "0 < current_corpus (run r2 rs m 30)")
  case True
  from assms have r: "0 \<le> 1 + r1 / 100" "r1 \<le> r2" by simp_all
  from corpus_mono_inflation [OF r, of rs m 30] True
  have p1: "0 < current_corpus (run r1 rs m 30)" by simp
  from corpus_strict_inflation [OF assms, of rs m 28] True
  have "current_corpus (run r2 rs m 30) < current_corpus (run r1 rs m 30)"
    by (simp add: eval_nat_numeral)
  then have "Corpus (simulation_data (simulate r2 rs m) ! 29)
      < Corpus (simulation_data (simulate r1 rs m) ! 29)"
    by (simp add: data_corpus)
  moreover from p1 have "depletion_age (simulate r1 rs m) = PyStr ''95+''"
    by (simp add: simulate_def depletion_str_iff)
  moreover from True have "depletion_age (simulate r2 rs m) = PyStr ''95+''"
    by (simp add: simulate_def depletion_str_iff)
  ultimately show ?thesis by simp
next
  case False
  with depletion_invariant [of r2 rs m 30] obtain d2 where d2: "1 \<le> d2"
    "depletion_age (run r2 rs m 30) = PyInt (65 + int d2)"
    "0 < current_corpus (run r2 rs m (d2 - 1))" by blast
  have "65 + int d2 \<le> a1" if a1: "depletion_age (simulate r1 rs m) = PyInt a1" for a1
  proof -
    from a1 depletion_invariant [of r1 rs m 30] obtain d1 where d1: "1 \<le> d1"
      "a1 = 65 + int d1" "current_corpus (run r1 rs m d1) = 0"
      by (auto simp: simulate_def)
    from assms have r: "0 \<le> 1 + r1 / 100" "r1 \<le> r2" by simp_all
    from corpus_mono_inflation [OF r, of rs m d1] d1(3) corpus_nonneg [of r2 rs m d1]
    have z: "current_corpus (run r2 rs m d1) = 0" by simp
    have "d2 \<le> d1"
    proof (rule ccontr)
      assume "\<not> d2 \<le> d1"
      then have "d1 \<le> d2 - 1" by simp
      from corpus_zero_stays [OF this z] d2(3) show False by simp
    qed
    with d1(2) show ?thesis by simp
  qed
  with d2(2) show ?thesis by (simp add: simulate_def)
qed

theorem higher_inflation_depletes_no_later_witness:
  "(4::real) \<le> 4 \<and> (4::real) < 10 \<and>
   depletion_age (simulate 10 paying_rent_label 500000) = PyInt 72 \<and>
   depletion_age (simulate 4 paying_rent_label 500000) = PyInt 73 \<and>
   (72::int) \<le> 73"
proof -
  have a: "(4::real) \<le> 4" and b: "(4::real) < 10" by simp_all
  from higher_inflation_depletes_no_later [OF a b, of paying_rent_label 500000] rate10_final rate4_final
  have "(72::int) \<le> 73" by auto
  with a b rate10_final rate4_final show ?thesis by simp
qed

section \<open>The series and the medical shock\<close>

text \<open>Before year 5 the loop has not read the medical shock.\<close>

lemma loop_body_other_year:
  "y \<noteq> 5 \<Longrightarrow> loop_body i t m y s = loop_body i t m' y s"
  by (simp add: loop_body_def annual_expense_def Let_def)

lemma run_before_shock: "k < 5 \<Longrightarrow> run i r m k = run i r m' k"
proof (induction k)
  case 0
  show ?case by (simp add: run_0)
next
  case (Suc k)
  then have "run i r m k = run i r m' k" and "Suc k \<noteq> 5" by simp_all
  then show ?case by (simp add: run_Suc loop_body_other_year [of "Suc k" i _ m _ m'])
qed

lemma series_row:
  assumes "j < 30"
  shows "Corpus (simulation_data (simulate i r m) ! j) =
      max 0 (after_drawdown
               (total_expense_y1 r * (1 + i / 100) ^ j + (if j = 4 then real_of_int m else 0))
               (if j = 0 then corpus else Corpus (simulation_data (simulate i r m) ! (j - 1))))"
proof -
  have e: "annual_expense i (total_expense_y1 r) m (Suc j) =
      total_expense_y1 r * (1 + i / 100) ^ j + (if j = 4 then real_of_int m else 0)"
    by (simp add: annual_expense_def Let_def)
  show ?thesis
  proof (cases j)
    case 0
    with e show ?thesis by (simp add: data_corpus corpus_Suc run_0 init_state_def)
  next
    case (Suc j')
    with assms have "j' < 30" by simp
    with Suc assms e show ?thesis by (simp add: data_corpus corpus_Suc)
  qed
qed

lemma fifth_year_expense_exceeds_inflow:
  assumes "4 \<le> i" "0 \<le> m"
  shows "pension + max 0 (current_corpus (run i r m' 4) * 0.078)
           < annual_expense i (total_expense_y1 r) m 5"
proof -
  let ?t = "total_expense_y1 r"
  have t: "480000 \<le> ?t" by (rule total_expense_y1_ge)
  from assms(1) have "(104 / 100) ^ 4 \<le> (1 + i / 100) ^ 4" by (intro power_mono) simp_all
  with t have "480000 * (104 / 100) ^ 4 \<le> ?t * (1 + i / 100) ^ 4" by (intro mult_mono) simp_all
  then have big: "561000 \<le> ?t * (1 + i / 100) ^ 4" by (simp add: power_divide)
  have "current_corpus (run i r m' 4) \<le> 2500000" by (rule corpus_le_start)
  then have "pension + max 0 (current_corpus (run i r m' 4) * 0.078) \<le> 495000"
    by (simp add: pension_def max_def)
  with big assms(2) show ?thesis by (simp add: annual_expense_def Let_def)
qed

lemma larger_shock_lowers_fifth_row:
  assumes "4 \<le> i" "0 \<le> m" "m < m'"
  shows "current_corpus (run i r m' 5) < current_corpus (run i r m 5) \<or>
         current_corpus (run i r m' 5) = 0"
proof -
  let ?t = "total_expense_y1 r"
  let ?c = "current_corpus (run i r m 4)"
  have c: "current_corpus (run i r m' 4) = ?c" by (simp add: run_before_shock [of 4 i r m' m])
  from assms(3) have lt: "annual_expense i ?t m 5 < annual_expense i ?t m' 5"
    by (simp add: annual_expense_def Let_def)
  from assms(2,3) have "0 \<le> m'" by simp
  from fifth_year_expense_exceeds_inflow [OF assms(1) this, of r m]
  have pos: "pension + max 0 (?c * 0.078) < annual_expense i ?t m' 5" .
  from after_drawdown_strict_expense [OF lt pos]
  have "after_drawdown (annual_expense i ?t m' 5) ?c < after_drawdown (annual_expense i ?t m 5) ?c" .
  moreover have "current_corpus (run i r m' 5) = max 0 (after_drawdown (annual_expense i ?t m' 5) ?c)"
    using corpus_step [of 5 4 i r m'] c by simp
  moreover have "current_corpus (run i r m 5) = max 0 (after_drawdown (annual_expense i ?t m 5) ?c)"
    using corpus_step [of 5 4 i r m] by simp
  ultimately show ?thesis by (simp add: max_def)
qed


text \<open>
  The run at the highest valid rate with the family-home option and the largest shock still
  has a positive corpus after year 5; so has every valid run.
\<close>

lemma total_family_home: "total_expense_y1 family_home_label = 480000"
  by (simp add: total_expense_y1_eq family_home_label_def paying_rent_label_def)

lemma home10_1: "current_corpus (run 10 family_home_label 500000 (Suc 0)) = 2500000"
  using corpus_step [of 1 0 10 family_home_label 500000]
  by (simp add: corpus_start total_family_home annual_expense_def after_drawdown_def pension_def Let_def power_divide)

lemma home10_2: "current_corpus (run 10 family_home_label 500000 2) = 2467000"
  using corpus_step [of 2 1 10 family_home_label 500000]
  by (simp add: home10_1 total_family_home annual_expense_def after_drawdown_def pension_def Let_def power_divide)

lemma home10_3: "current_corpus (run 10 family_home_label 500000 3) = 2378626"
  using corpus_step [of 3 2 10 family_home_label 500000]
  by (simp add: home10_2 total_family_home annual_expense_def after_drawdown_def pension_def Let_def power_divide)

lemma home10_4: "current_corpus (run 10 family_home_label 500000 4) = 556319707 / 250"
  using corpus_step [of 4 3 10 family_home_label 500000]
  by (simp add: home10_3 total_family_home annual_expense_def after_drawdown_def pension_def Let_def power_divide)

lemma home10_5: "current_corpus (run 10 family_home_label 500000 5) = 187010322073 / 125000"
  using corpus_step [of 5 4 10 family_home_label 500000]
  by (simp add: home10_4 total_family_home annual_expense_def after_drawdown_def pension_def Let_def power_divide)

lemma corpus_mono_shock:
  assumes "m \<le> m'"
  shows "current_corpus (run i r m' k) \<le> current_corpus (run i r m k)"
proof (induction k)
  case 0
  show ?case by (simp add: corpus_start)
next
  case (Suc k)
  from assms have "annual_expense i (total_expense_y1 r) m (Suc k)
      \<le> annual_expense i (total_expense_y1 r) m' (Suc k)"
    by (simp add: annual_expense_def Let_def)
  with Suc have "after_drawdown (annual_expense i (total_expense_y1 r) m' (Suc k)) (current_corpus (run i r m' k))
      \<le> after_drawdown (annual_expense i (total_expense_y1 r) m (Suc k)) (current_corpus (run i r m k))"
    by (rule after_drawdown_mono)
  then show ?case by (simp add: corpus_Suc)
qed

lemma valid_fifth_year_positive:
  assumes "valid_longevity i r m"
  shows "0 < current_corpus (run i r m 5)"
proof -
  from assms have i: "0 \<le> 1 + i / 100" "i \<le> 10" and m: "m \<le> 500000"
    and r: "r = paying_rent_label \<or> r = family_home_label"
    by (auto simp: valid_longevity_def)
  from r have "0 < current_corpus (run 10 r 500000 5)"
    by (auto simp: rate10_5 home10_5)
  also have "\<dots> \<le> current_corpus (run 10 r m 5)" using m by (rule corpus_mono_shock)
  also have "\<dots> \<le> current_corpus (run i r m 5)" using i by (rule corpus_mono_inflation)
  finally show ?thesis .
qed

lemma fifth_year_falls_by_shock:
  assumes "valid_longevity i r m"
  shows "current_corpus (run i r m 5) = current_corpus (run i r 0 5) - real_of_int m"
proof -
  let ?t = "total_expense_y1 r"
  let ?c = "current_corpus (run i r 0 4)"
  from assms have i: "4 \<le> i" and m: "0 \<le> m" by (auto simp: valid_longevity_def)
  have c: "current_corpus (run i r m 4) = ?c" by (simp add: run_before_shock [of 4 i r m 0])
  have e: "annual_expense i ?t m 5 = annual_expense i ?t 0 5 + real_of_int m"
    by (simp add: annual_expense_def Let_def)
  from fifth_year_expense_exceeds_inflow [of i 0 r 0] i
  have pos: "pension + max 0 (?c * 0.078) < annual_expense i ?t 0 5" by simp
  with m have ad: "after_drawdown (annual_expense i ?t m 5) ?c
      = after_drawdown (annual_expense i ?t 0 5) ?c - real_of_int m"
    by (simp add: e after_drawdown_def Let_def max_def)
  have cm: "current_corpus (run i r m 5) = max 0 (after_drawdown (annual_expense i ?t m 5) ?c)"
    using corpus_step [of 5 4 i r m] c by simp
  have c0: "current_corpus (run i r 0 5) = max 0 (after_drawdown (annual_expense i ?t 0 5) ?c)"
    using corpus_step [of 5 4 i r 0] by simp
  from valid_fifth_year_positive [OF assms] cm
  have p: "0 < after_drawdown (annual_expense i ?t m 5) ?c" by (simp add: max_def split: if_splits)
  with ad m have "0 < after_drawdown (annual_expense i ?t 0 5) ?c" by simp
  with p ad cm c0 show ?thesis by (simp add: max_def)
qed

text \<open>
  C8. For every input, so for every valid one, the series has exactly 30 points, the point
  at index \<open>j\<close> has age \<open>66 + j\<close>, so the ages increase strictly and start at 66. The
  medical shock enters year 5 of the loop and no other year: the corpus of each row is the
  clamped drawdown of the expense \<open>total_expense_y1 * (1 + inflation/100) ^ j\<close> on the
  corpus of the row before, with the shock added to the expense of the row at index 4
  alone; the four rows before it are the same whatever the shock; the iteration of a year
  other than 5 does not read the shock; and for every valid input the corpus of the year-5
  row is lower by exactly the shock than in the run without a shock.
\<close>

theorem series_has_thirty_ages:
  "length (simulation_data (simulate i r m)) = 30 \<and>
   (\<forall>j<30. Age (simulation_data (simulate i r m) ! j) = 66 + int j) \<and>
   (\<forall>j k. j < k \<and> k < 30 \<longrightarrow>
      Age (simulation_data (simulate i r m) ! j) < Age (simulation_data (simulate i r m) ! k)) \<and>
   Age (simulation_data (simulate i r m) ! 0) = 66 \<and>
   annual_expense i t m y = t * (1 + i / 100) ^ (y - 1) + (if y = 5 then real_of_int m else 0) \<and>
   (y \<noteq> 5 \<longrightarrow> loop_body i t m y s = loop_body i t m' y s) \<and>
   (\<forall>j<30. Corpus (simulation_data (simulate i r m) ! j) =
      max 0 (after_drawdown
               (total_expense_y1 r * (1 + i / 100) ^ j + (if j = 4 then real_of_int m else 0))
               (if j = 0 then corpus else Corpus (simulation_data (simulate i r m) ! (j - 1))))) \<and>
   (\<forall>j<4. simulation_data (simulate i r m) ! j = simulation_data (simulate i r m') ! j) \<and>
   (valid_longevity i r m \<longrightarrow>
      Corpus (simulation_data (simulate i r m) ! 4) =
        Corpus (simulation_data (simulate i r 0) ! 4) - real_of_int m)"
proof (intro conjI allI impI)
  show "length (simulation_data (simulate i r m)) = 30" by (rule length_data)
next
  fix j :: nat assume "j < 30"
  then show "Age (simulation_data (simulate i r m) ! j) = 66 + int j" by (rule data_age)
next
  fix j k :: nat assume "j < k \<and> k < 30"
  then show "Age (simulation_data (simulate i r m) ! j) < Age (simulation_data (simulate i r m) ! k)"
    by (simp add: data_age)
next
  show "Age (simulation_data (simulate i r m) ! 0) = 66" by (simp add: data_age)
next
  show "annual_expense i t m y = t * (1 + i / 100) ^ (y - 1) + (if y = 5 then real_of_int m else 0)"
    by (simp add: annual_expense_def Let_def)
next
  assume "y \<noteq> 5"
  then show "loop_body i t m y s = loop_body i t m' y s" by (rule loop_body_other_year)
next
  fix j :: nat assume "j < 30"
  then show "Corpus (simulation_data (simulate i r m) ! j) =
      max 0 (after_drawdown
               (total_expense_y1 r * (1 + i / 100) ^ j + (if j = 4 then real_of_int m else 0))
               (if j = 0 then corpus else Corpus (simulation_data (simulate i r m) ! (j - 1))))"
    by (rule series_row)
next
  fix j :: nat assume j: "j < 4"
  then have "Suc j < 5" by simp
  then have "run i r m (Suc j) = run i r m' (Suc j)" by (rule run_before_shock)
  with j show "simulation_data (simulate i r m) ! j = simulation_data (simulate i r m') ! j"
    by (simp add: simulate_def data_nth)
next
  assume "valid_longevity i r m"
  then have "current_corpus (run i r m 5) = current_corpus (run i r 0 5) - real_of_int m"
    by (rule fifth_year_falls_by_shock)
  then show "Corpus (simulation_data (simulate i r m) ! 4) =
        Corpus (simulation_data (simulate i r 0) ! 4) - real_of_int m"
    by (simp add: data_corpus)
qed

theorem series_has_thirty_ages_witness:
  "length (simulation_data (simulate 10 paying_rent_label 500000)) = 30 \<and>
   Age (simulation_data (simulate 10 paying_rent_label 500000) ! 0) = 66 \<and>
   Age (simulation_data (simulate 10 paying_rent_label 500000) ! 29) = 95 \<and>
   Age (simulation_data (simulate 10 paying_rent_label 500000) ! 0)
     < Age (simulation_data (simulate 10 paying_rent_label 500000) ! 29) \<and>
   loop_body 10 600000 500000 4 init_state = loop_body 10 600000 0 4 init_state \<and>
   simulation_data (simulate 10 paying_rent_label 500000) ! 3
     = simulation_data (simulate 10 paying_rent_label 0) ! 3 \<and>
   Corpus (simulation_data (simulate 10 paying_rent_label 500000) ! 3) = 40602546301 / 25000 \<and>
   valid_longevity 10 paying_rent_label 500000 \<and>
   Corpus (simulation_data (simulate 10 paying_rent_label 500000) ! 4) = 8404022456239 / 12500000 \<and>
   Corpus (simulation_data (simulate 10 paying_rent_label 0) ! 4) = 14654022456239 / 12500000"
proof -
  let ?sd = "simulation_data (simulate 10 paying_rent_label 500000)"
  let ?plain = "simulation_data (simulate 10 paying_rent_label 0)"
  note a = series_has_thirty_ages [of 10 paying_rent_label 500000 600000 4 init_state 0]
  note ages = a [THEN conjunct2, THEN conjunct1, rule_format]
  note incr = a [THEN conjunct2, THEN conjunct2, THEN conjunct1, rule_format]
  note before = a [THEN conjunct2, THEN conjunct2, THEN conjunct2, THEN conjunct2, THEN conjunct2,
      THEN conjunct2, THEN conjunct2, THEN conjunct1, rule_format]
  note fall = a [THEN conjunct2, THEN conjunct2, THEN conjunct2, THEN conjunct2, THEN conjunct2,
      THEN conjunct2, THEN conjunct2, THEN conjunct2, rule_format]
  have v: "valid_longevity 10 paying_rent_label 500000" by (simp add: valid_longevity_def)
  from a have l: "length ?sd = 30" by (rule conjunct1)
  from ages [of 0] have a0: "Age (?sd ! 0) = 66" by simp
  from ages [of 29] have a29: "Age (?sd ! 29) = 95" by simp
  from incr [of 0 29] have lt: "Age (?sd ! 0) < Age (?sd ! 29)" by simp
  from a have lb: "loop_body 10 600000 500000 4 init_state = loop_body 10 600000 0 4 init_state" by simp
  from before [of 3] have b3: "?sd ! 3 = ?plain ! 3" by simp
  have c3: "Corpus (?sd ! 3) = 40602546301 / 25000" by (simp add: data_corpus rate10_4)
  have c4: "Corpus (?sd ! 4) = 8404022456239 / 12500000" by (simp add: data_corpus rate10_5)
  from fall [OF v] c4 have c40: "Corpus (?plain ! 4) = 14654022456239 / 12500000" by simp
  from l a0 a29 lt lb b3 c3 v c4 c40 show ?thesis by simp
qed


section \<open>Inputs outside the contract\<close>







end
